theory Spec2Isabelle
  imports Complex_Main
begin

section \<open>Express-Jobly: the Job model (models/job.js) and the partial-update helper\<close>

text \<open>
  The development embeds \<^verbatim>\<open>src/models/job.js\<close>: the class \<^verbatim>\<open>Job\<close> with
  \<^verbatim>\<open>create\<close>, \<^verbatim>\<open>_createWhereSqlQueryFilters\<close>, \<^verbatim>\<open>findAll\<close>, \<^verbatim>\<open>get\<close>,
  \<^verbatim>\<open>update\<close> and \<^verbatim>\<open>remove\<close>. Every method talks to the store through
  \<^verbatim>\<open>db.query\<close>; the store is modelled as explicit state (the rows of the table
  \<^verbatim>\<open>jobs\<close> and the statements executed so far), and every \<^verbatim>\<open>throw\<close> is a value
  \<open>Inl\<close> of a sum type.
\<close>

subsection \<open>Strings\<close>

text \<open>
  JavaScript strings are modelled as \<^typ>\<open>string\<close>. \<^verbatim>\<open>String.prototype.toLowerCase\<close>
  and SQL's \<^verbatim>\<open>LOWER\<close> are both modelled on ASCII: the letters A to Z are mapped to
  a to z and every other character is left alone.
\<close>

definition upper_letters :: string where
  "upper_letters = ''ABCDEFGHIJKLMNOPQRSTUVWXYZ''"

definition lower_letters :: string where
  "lower_letters = ''abcdefghijklmnopqrstuvwxyz''"

definition lower_char :: "char \<Rightarrow> char" where
  "lower_char c = (case map_of (zip upper_letters lower_letters) c of Some d \<Rightarrow> d | None \<Rightarrow> c)"

definition toLowerCase :: "string \<Rightarrow> string" where
  "toLowerCase s = map lower_char s"

text \<open>The store's \<^verbatim>\<open>LOWER(title)\<close>.\<close>

definition LOWER :: "string \<Rightarrow> string" where
  "LOWER s = map lower_char s"

text \<open>\<^verbatim>\<open>Array.prototype.join\<close> on an array of strings.\<close>

fun join :: "string \<Rightarrow> string list \<Rightarrow> string" where
  "join sep [] = []"
| "join sep [x] = x"
| "join sep (x # y # ys) = x @ sep @ join sep (y # ys)"

text \<open>
  The decimal text of a number, as a template literal (\<^verbatim>\<open>`${n}`\<close>) or string
  concatenation (\<^verbatim>\<open>"$" + n\<close>) produces it for an integer (JavaScript writes
  the digits out in full up to a magnitude of \<open>10\<^sup>2\<^sup>1\<close>).
\<close>

definition digit_char :: "nat \<Rightarrow> char" where
  "digit_char n = ''0123456789'' ! n"

function show_nat :: "nat \<Rightarrow> string" where
  "show_nat n = (if n < 10 then [digit_char n] else show_nat (n div 10) @ [digit_char (n mod 10)])"
  by pat_completeness auto
termination
  by (relation "measure id") auto

declare show_nat.simps [simp del]

definition show_int :: "int \<Rightarrow> string" where
  "show_int i = (if i < 0 then ''-'' @ show_nat (nat (- i)) else show_nat (nat i))"

definition single_quote :: char where
  "single_quote = CHR 0x27"

definition double_quote :: char where
  "double_quote = CHR 0x22"

definition backslash :: char where
  "backslash = CHR 0x5C"

subsection \<open>Errors (expressError.js)\<close>

text \<open>
  The two error classes the model throws. A message is kept as the template the source
  writes with the value it interpolates:
  \<^verbatim>\<open>`Equity value for job is invalid (<= 1.0): ${equity}`\<close> is \<open>InvalidEquity equity\<close>,
  \<^verbatim>\<open>`Salary value for job is invalid (>= 0): ${salary}`\<close> is \<open>InvalidSalary salary\<close>,
  \<^verbatim>\<open>`Duplicate job: ${title}`\<close> is \<open>DuplicateJob title\<close>,
  \<^verbatim>\<open>`Salary exceeds salary limit: Less than $1,000,000`\<close> is \<open>SalaryLimit\<close> and
  \<^verbatim>\<open>`No job: ${title}`\<close> is \<open>NoJob title\<close>. \<open>StoreFailure\<close> stands for a failure of
  the store itself, which the model neither catches nor classifies.
\<close>

datatype message =
    NoData
  | InvalidEquity rat
  | InvalidSalary int
  | DuplicateJob string
  | SalaryLimit
  | NoJob string

datatype error =
    BadRequestError message
  | NotFoundError message
  | StoreFailure

subsection \<open>The partial-update builder (helpers/sql.js)\<close>

text \<open>
  Modelled from the spec: \<^verbatim>\<open>sqlForPartialUpdate\<close> of \<^verbatim>\<open>helpers/sql.js\<close>, which is
  not among the sources; only its caller \<^verbatim>\<open>Job.update\<close> and its unit test are. The
  spec (4.1, 4.2) gives the contract: the FieldMapper returns the override value if
  present and the field name otherwise; the builder fails with a ValidationError
  ("no data") on an empty update request before any placeholder is generated, and
  otherwise returns the clause fragments, the i-th equating the quoted column to the
  positional placeholder i+1, with the bound values in the order of the request's keys.
  The text of a fragment is the one the unit test expects:
  \<^verbatim>\<open>"first_name"=$1, "age"=$2, "logo_url"=$3\<close>.

  An update request is an association list in the insertion order of its keys.
\<close>

definition fieldMapper :: "(string \<rightharpoonup> string) \<Rightarrow> string \<Rightarrow> string" where
  "fieldMapper jsToSql colName = (case jsToSql colName of Some c \<Rightarrow> c | None \<Rightarrow> colName)"

record clause =
  column :: string
  placeholder :: nat

definition clause_text :: "clause \<Rightarrow> string" where
  "clause_text c = [double_quote] @ column c @ [double_quote] @ ''=$'' @ show_nat (placeholder c)"

record 'v partial_update =
  clauses :: "clause list"
  boundValues :: "'v list"

definition setCols :: "'v partial_update \<Rightarrow> string" where
  "setCols pu = join '', '' (map clause_text (clauses pu))"

definition sqlForPartialUpdate ::
  "(string \<times> 'v) list \<Rightarrow> (string \<rightharpoonup> string) \<Rightarrow> error + 'v partial_update" where
  "sqlForPartialUpdate dataToUpdate jsToSql =
     (let keys = map fst dataToUpdate in
      if length keys = 0 then Inl (BadRequestError NoData)
      else Inr \<lparr>clauses =
                   map (\<lambda>(colName, idx). \<lparr>column = fieldMapper jsToSql colName, placeholder = idx + 1\<rparr>)
                     (zip keys [0..<length keys]),
                boundValues = map snd dataToUpdate\<rparr>)"

subsection \<open>The table jobs and the store\<close>

text \<open>
  A job as \<^verbatim>\<open>Job.create\<close> receives it and as the table holds it: the columns
  \<^verbatim>\<open>title, salary, equity, company_handle\<close>, the last one returned under the alias
  \<^verbatim>\<open>companyHandle\<close>. The type of the equity field is a parameter: a JavaScript number
  in the data of a request and in a stored row (a rational here; rounding to a double
  is not modelled), and a \<open>numeric\<close> in a row that a query returns.
\<close>

record 'e job =
  title :: string
  salary :: int
  equity :: 'e
  companyHandle :: string

type_synonym row = "rat job"

text \<open>
  Modelled from the spec: the store behind \<^verbatim>\<open>db.query\<close> (\<^verbatim>\<open>db.js\<close> and the
  schema of the table are not among the sources). The spec (6) says that the store
  holds \<^verbatim>\<open>jobs(title, salary, equity, company_handle)\<close>, takes a statement with its
  bound values and answers with a row set. The spec (4.4) adds that the store "may"
  return equity in a fixed-point/text representation; the tests of the repository read
  the equity of a row as a number, from a raw \<^verbatim>\<open>db.query\<close>
  (\<^verbatim>\<open>expect(result.rows).toEqual([{ ..., equity: 0.5, ... }])\<close>) as from \<^verbatim>\<open>get\<close>,
  \<^verbatim>\<open>findAll\<close> and \<^verbatim>\<open>update\<close>. So a row comes back from a statement with its equity
  as the number \<open>Float q\<close>. \<open>Fixed q\<close> is the text of \<open>q\<close>, which \<^verbatim>\<open>parseFloat\<close>
  would turn into the number. The table has no constraint of its own.
\<close>

datatype numeric = Fixed rat | Float rat

fun parseFloat :: "numeric \<Rightarrow> numeric" where
  "parseFloat (Fixed q) = Float q"
| "parseFloat (Float q) = Float q"

definition returning :: "row \<Rightarrow> numeric job" where
  "returning r =
     \<lparr>title = title r, salary = salary r, equity = Float (equity r), companyHandle = companyHandle r\<rparr>"

text \<open>A value bound to a positional parameter of a statement.\<close>

datatype jsval = JStr string | JNum rat

text \<open>
  The argument \<^verbatim>\<open>minSalary\<close> of the filter compiler is \<^verbatim>\<open>null\<close>, an integer number
  \<open>Num n\<close> (the spec's "integer lower bound") or \<open>Digits n\<close>, the string of the
  decimal digits of \<open>n\<close>, as the query string \<^verbatim>\<open>?minSalary=200000\<close> carries it; any
  other string is not in this type. \<open>template_number\<close> is its text in a template
  literal.
\<close>

datatype min_salary = Null | Num int | Digits int

fun template_number :: "min_salary \<Rightarrow> string" where
  "template_number Null = ''null''"
| "template_number (Num n) = show_int n"
| "template_number (Digits n) = show_int n"

text \<open>
  SQL's \<^verbatim>\<open>LIKE\<close>: in the pattern \<^verbatim>\<open>%\<close> stands for any sequence of characters,
  \<^verbatim>\<open>_\<close> for any single character, a backslash makes the next character literal, and
  every other character stands for itself. A pattern that ends in a lone backslash is
  an error in SQL; \<open>pattern_ok\<close> says that a pattern does not, and the store matches
  only such patterns.
\<close>

fun like_match :: "string \<Rightarrow> string \<Rightarrow> bool" where
  "like_match [] s = (s = [])"
| "like_match (p # ps) s =
    (if p = CHR ''%'' then
       (like_match ps s \<or> (case s of [] \<Rightarrow> False | c # t \<Rightarrow> like_match (p # ps) t))
     else if p = CHR ''_'' then
       (case s of [] \<Rightarrow> False | c # t \<Rightarrow> like_match ps t)
     else if p = backslash then
       (case ps of
          [] \<Rightarrow> False
        | q # qs \<Rightarrow> (case s of [] \<Rightarrow> False | c # t \<Rightarrow> c = q \<and> like_match qs t))
     else (case s of [] \<Rightarrow> False | c # t \<Rightarrow> c = p \<and> like_match ps t))"

fun pattern_ok :: "string \<Rightarrow> bool" where
  "pattern_ok [] = True"
| "pattern_ok [p] = (p \<noteq> backslash)"
| "pattern_ok (p # q # ps) = (if p = backslash then pattern_ok ps else pattern_ok (q # ps))"

text \<open>
  The store reads the text after \<^verbatim>\<open>FROM jobs\<close> of the statement of \<^verbatim>\<open>findAll\<close>.
  The reader below covers the texts that are nothing at all, or \<^verbatim>\<open>WHERE\<close> and a
  conjunction, joined by \<^verbatim>\<open>AND\<close>, of conditions of these five forms:
  \<^verbatim>\<open>LOWER(title) LIKE '<pattern>'\<close> with a string literal that holds no single quote,
  \<^verbatim>\<open>salary >= <integer>\<close>, \<^verbatim>\<open>equity > 0\<close>, \<^verbatim>\<open>equity = 0\<close> and
  \<^verbatim>\<open>equity >= 0\<close>. It reads from left to right, so a literal may hold any other
  text; what follows the closing quote of a literal or the digits of an integer must be
  \<^verbatim>\<open>AND\<close> or the end. On any other text (a single quote in the title filter can
  produce one) the reader gives \<open>None\<close>, and the model does not say what the store
  answers.
\<close>

datatype condition =
    LOWER_title_LIKE string
  | salary_GE int
  | equity_GT_0
  | equity_EQ_0
  | equity_GE_0

fun holds :: "condition \<Rightarrow> row \<Rightarrow> bool" where
  "holds (LOWER_title_LIKE pattern) r = like_match pattern (LOWER (title r))"
| "holds (salary_GE n) r = (salary r \<ge> n)"
| "holds equity_GT_0 r = (equity r > 0)"
| "holds equity_EQ_0 r = (equity r = 0)"
| "holds equity_GE_0 r = (equity r \<ge> 0)"

fun strip_prefix :: "string \<Rightarrow> string \<Rightarrow> string option" where
  "strip_prefix [] s = Some s"
| "strip_prefix (p # ps) [] = None"
| "strip_prefix (p # ps) (c # cs) = (if p = c then strip_prefix ps cs else None)"

definition is_digit :: "char \<Rightarrow> bool" where
  "is_digit c = (c \<in> set ''0123456789'')"

definition digit_value :: "char \<Rightarrow> nat" where
  "digit_value c =
     (case map_of (zip ''0123456789'' [0, 1, 2, 3, 4, 5, 6, 7, 8, 9]) c of Some v \<Rightarrow> v | None \<Rightarrow> 0)"

definition nat_of_digits :: "string \<Rightarrow> nat" where
  "nat_of_digits ds = foldl (\<lambda>a c. 10 * a + digit_value c) 0 ds"

definition read_integer :: "string \<Rightarrow> (int \<times> string) option" where
  "read_integer s =
     (let negative = (case s of [] \<Rightarrow> False | c # cs \<Rightarrow> c = CHR ''-'');
          s1 = (if negative then tl s else s);
          ds = takeWhile is_digit s1
      in if ds = [] then None
         else Some (if negative then - int (nat_of_digits ds) else int (nat_of_digits ds),
                    dropWhile is_digit s1))"

definition read_condition :: "string \<Rightarrow> (condition \<times> string) option" where
  "read_condition s =
     (case strip_prefix (''LOWER(title) LIKE '' @ [single_quote]) s of
        Some r \<Rightarrow>
          (case dropWhile (\<lambda>c. c \<noteq> single_quote) r of
             [] \<Rightarrow> None
           | q # rest \<Rightarrow>
               if pattern_ok (takeWhile (\<lambda>c. c \<noteq> single_quote) r)
               then Some (LOWER_title_LIKE (takeWhile (\<lambda>c. c \<noteq> single_quote) r), rest)
               else None)
      | None \<Rightarrow>
     (case strip_prefix ''salary >= '' s of
        Some r \<Rightarrow> map_option (\<lambda>(n, rest). (salary_GE n, rest)) (read_integer r)
      | None \<Rightarrow>
     (case strip_prefix ''equity >= 0'' s of
        Some rest \<Rightarrow> Some (equity_GE_0, rest)
      | None \<Rightarrow>
     (case strip_prefix ''equity > 0'' s of
        Some rest \<Rightarrow> Some (equity_GT_0, rest)
      | None \<Rightarrow>
     (case strip_prefix ''equity = 0'' s of
        Some rest \<Rightarrow> Some (equity_EQ_0, rest)
      | None \<Rightarrow> None)))))"

text \<open>
  A conjunction is read with one unit of fuel for each condition; the text has at least
  as many characters as conditions, so its length is fuel enough.
\<close>

fun read_conjunction :: "nat \<Rightarrow> string \<Rightarrow> condition list option" where
  "read_conjunction 0 s = None"
| "read_conjunction (Suc k) s =
     (case read_condition s of
        None \<Rightarrow> None
      | Some (c, rest) \<Rightarrow>
          if rest = [] then Some [c]
          else (case strip_prefix '' AND '' rest of
                  None \<Rightarrow> None
                | Some s' \<Rightarrow> map_option ((#) c) (read_conjunction k s')))"

definition read_where :: "string \<Rightarrow> condition list option" where
  "read_where queryFilters =
     (if queryFilters = [] then Some []
      else (case strip_prefix ''WHERE '' queryFilters of
              None \<Rightarrow> None
            | Some s \<Rightarrow> read_conjunction (length s) s))"

text \<open>
  The statements of \<^verbatim>\<open>job.js\<close>, with the values bound to them, as the store logs
  them: the duplicate lookup and the \<^verbatim>\<open>INSERT\<close> of \<^verbatim>\<open>create\<close>, the
  \<^verbatim>\<open>SELECT\<close> of \<^verbatim>\<open>findAll\<close> (with the text of \<^verbatim>\<open>queryFilters\<close>), the
  \<^verbatim>\<open>SELECT\<close> of \<^verbatim>\<open>get\<close>, the \<^verbatim>\<open>UPDATE\<close> of \<^verbatim>\<open>update\<close> (with its
  \<^verbatim>\<open>SET\<close> clauses and the index of the placeholder of the key) and the
  \<^verbatim>\<open>DELETE\<close> of \<^verbatim>\<open>remove\<close>.
\<close>

datatype statement =
    SELECT_title string
  | INSERT_INTO_jobs row
  | SELECT_jobs string
  | SELECT_job string
  | UPDATE_jobs "clause list" nat "jsval list"
  | DELETE_FROM_jobs string

text \<open>
  The state of the store: the rows of the table, the statements executed so far, and
  \<open>unread\<close>, the answer of the store to a \<^verbatim>\<open>SELECT\<close> on the rows whose text the
  reader above does not read. Nothing is assumed of \<open>unread\<close>.
\<close>

record db =
  jobs :: "row list"
  statements :: "statement list"
  unread :: "string \<Rightarrow> row list \<Rightarrow> error + numeric job list"

definition executed :: "db \<Rightarrow> statement \<Rightarrow> db" where
  "executed d s = d\<lparr>statements := statements d @ [s]\<rparr>"

text \<open>\<^verbatim>\<open>SELECT title FROM jobs WHERE LOWER(title) = $1\<close>\<close>

definition query_SELECT_title :: "db \<Rightarrow> string \<Rightarrow> string list \<times> db" where
  "query_SELECT_title d p1 =
     (map title (filter (\<lambda>r. LOWER (title r) = p1) (jobs d)), executed d (SELECT_title p1))"

text \<open>
  \<^verbatim>\<open>INSERT INTO jobs (title, salary, equity, company_handle) VALUES ($1, $2, $3, $4)
  RETURNING title, salary, equity, company_handle AS "companyHandle"\<close>
\<close>

definition query_INSERT :: "db \<Rightarrow> row \<Rightarrow> numeric job list \<times> db" where
  "query_INSERT d r = ([returning r], executed (d\<lparr>jobs := jobs d @ [r]\<rparr>) (INSERT_INTO_jobs r))"

text \<open>
  \<^verbatim>\<open>SELECT title, salary, equity, company_handle AS "companyHandle" FROM jobs ${queryFilters}\<close>:
  the store reads the text of \<^verbatim>\<open>queryFilters\<close> and returns the rows on which all its
  conditions hold, in the order of the table.
\<close>

definition query_SELECT_jobs :: "db \<Rightarrow> string \<Rightarrow> (error + numeric job list) \<times> db" where
  "query_SELECT_jobs d queryFilters =
     (case read_where queryFilters of
        Some cs \<Rightarrow> Inr (map returning (filter (\<lambda>r. list_all (\<lambda>c. holds c r) cs) (jobs d)))
      | None \<Rightarrow> unread d queryFilters (jobs d),
      executed d (SELECT_jobs queryFilters))"

text \<open>
  \<^verbatim>\<open>SELECT title, salary, equity, company_handle AS "companyHandle" FROM jobs
  WHERE LOWER(title) = $1\<close>
\<close>

definition query_SELECT_job :: "db \<Rightarrow> string \<Rightarrow> numeric job list \<times> db" where
  "query_SELECT_job d p1 =
     (map returning (filter (\<lambda>r. LOWER (title r) = p1) (jobs d)), executed d (SELECT_job p1))"

text \<open>
  \<^verbatim>\<open>UPDATE jobs SET ${setCols} WHERE LOWER(title) = ${titleVarIdx} RETURNING ...\<close>.
  The store looks every placeholder up in the bound values, checks that every column
  exists and takes the value bound to it, and then assigns the columns in every row
  whose lower-cased title is the key. The text of the statement is \<open>setCols\<close> of the
  clauses and \<^verbatim>\<open>"$"\<close> followed by the decimal index.
\<close>

definition param :: "jsval list \<Rightarrow> nat \<Rightarrow> jsval option" where
  "param params i = (if 1 \<le> i \<and> i \<le> length params then Some (params ! (i - 1)) else None)"

definition column_accepts :: "string \<Rightarrow> jsval option \<Rightarrow> bool" where
  "column_accepts col v =
     (case v of
        None \<Rightarrow> False
      | Some (JStr s) \<Rightarrow> col = ''title'' \<or> col = ''company_handle''
      | Some (JNum q) \<Rightarrow> (col = ''salary'' \<and> of_int \<lfloor>q\<rfloor> = q) \<or> col = ''equity'')"

definition set_column :: "string \<Rightarrow> jsval option \<Rightarrow> row \<Rightarrow> row" where
  "set_column col v r =
     (case v of
        None \<Rightarrow> r
      | Some (JStr s) \<Rightarrow>
          if col = ''title'' then r\<lparr>title := s\<rparr>
          else if col = ''company_handle'' then r\<lparr>companyHandle := s\<rparr>
          else r
      | Some (JNum q) \<Rightarrow>
          if col = ''salary'' then r\<lparr>salary := \<lfloor>q\<rfloor>\<rparr>
          else if col = ''equity'' then r\<lparr>equity := q\<rparr>
          else r)"

fun assign :: "clause list \<Rightarrow> jsval list \<Rightarrow> row \<Rightarrow> row" where
  "assign [] params r = r"
| "assign (c # cs) params r = assign cs params (set_column (column c) (param params (placeholder c)) r)"

definition query_UPDATE ::
  "db \<Rightarrow> clause list \<Rightarrow> nat \<Rightarrow> jsval list \<Rightarrow> (error + numeric job list) \<times> db" where
  "query_UPDATE d cs titleVarIdx params =
     (let d' = executed d (UPDATE_jobs cs titleVarIdx params) in
      case param params titleVarIdx of
        Some (JStr k) \<Rightarrow>
          if list_all (\<lambda>c. column_accepts (column c) (param params (placeholder c))) cs
          then (Inr (map (\<lambda>r. returning (assign cs params r))
                       (filter (\<lambda>r. LOWER (title r) = k) (jobs d))),
                d'\<lparr>jobs := map (\<lambda>r. if LOWER (title r) = k then assign cs params r else r) (jobs d)\<rparr>)
          else (Inl StoreFailure, d')
      | _ \<Rightarrow> (Inl StoreFailure, d'))"

text \<open>\<^verbatim>\<open>DELETE FROM jobs WHERE LOWER(title) = $1 RETURNING title\<close>\<close>

definition query_DELETE :: "db \<Rightarrow> string \<Rightarrow> string list \<times> db" where
  "query_DELETE d p1 =
     (map title (filter (\<lambda>r. LOWER (title r) = p1) (jobs d)),
      executed (d\<lparr>jobs := filter (\<lambda>r. LOWER (title r) \<noteq> p1) (jobs d)\<rparr>) (DELETE_FROM_jobs p1))"

subsection \<open>class Job\<close>

text \<open>
  Every method takes the store and returns what it returns or throws, with the store
  after it. \<^verbatim>\<open>Job.create\<close>: both checks are computed first, then the duplicate
  lookup is awaited, and only then are the three errors thrown, in this order.
\<close>

definition create :: "db \<Rightarrow> row \<Rightarrow> (error + numeric job) \<times> db" where
  "create d dat =
     (let equityCheck = (equity dat \<le> 1);
          salaryCheck = (salary dat \<ge> 0);
          (duplicateCheck, d1) = query_SELECT_title d (toLowerCase (title dat))
      in if \<not> equityCheck then (Inl (BadRequestError (InvalidEquity (equity dat))), d1)
         else if \<not> salaryCheck then (Inl (BadRequestError (InvalidSalary (salary dat))), d1)
         else if duplicateCheck \<noteq> [] then (Inl (BadRequestError (DuplicateJob (title dat))), d1)
         else
           let (result, d2) =
                 query_INSERT d1
                   \<lparr>title = title dat, salary = salary dat, equity = equity dat,
                    companyHandle = companyHandle dat\<rparr>
           in case result of
                [] \<Rightarrow> (Inl StoreFailure, d2)
              | j # _ \<Rightarrow> (Inr (j\<lparr>equity := parseFloat (equity j)\<rparr>), d2))"

text \<open>
  \<^verbatim>\<open>Job._createWhereSqlQueryFilters(title = "", minSalary = null, hasEquity = "")\<close>.
  An argument that is not passed (\<^verbatim>\<open>undefined\<close>) is \<open>None\<close> and takes its default.
  \<^verbatim>\<open>minSalary >= 1000000\<close> and \<^verbatim>\<open>if (minSalary)\<close> read \<^verbatim>\<open>null\<close> as 0 and as
  false, and a string of digits as its number and as true (a non-empty string is
  truthy, the string \<^verbatim>\<open>"0"\<close> too). \<open>queries_of\<close> is the array \<^verbatim>\<open>queries\<close>
  after the five conditional pushes, and \<open>queryFilters_of\<close> the string
  \<^verbatim>\<open>queryFilters\<close> made of it.
\<close>

fun number_ge :: "min_salary \<Rightarrow> int \<Rightarrow> bool" where
  "number_ge Null k = (0 \<ge> k)"
| "number_ge (Num n) k = (n \<ge> k)"
| "number_ge (Digits n) k = (n \<ge> k)"

fun truthy :: "min_salary \<Rightarrow> bool" where
  "truthy Null = False"
| "truthy (Num n) = (n \<noteq> 0)"
| "truthy (Digits n) = True"

definition queries_of :: "string \<Rightarrow> min_salary \<Rightarrow> string \<Rightarrow> string list" where
  "queries_of title' minSalary hasEquity =
     (let titleSql = ''LOWER(title) LIKE '' @ [single_quote] @ ''%'' @ toLowerCase title' @ ''%''
                       @ [single_quote];
          minSalarySql = ''salary >= '' @ template_number minSalary;
          hasEquitySql = ''equity > 0'';
          hasNoEquitySql = ''equity = 0'';
          allEquitySql = ''equity >= 0''
      in (if length title' > 0 then [titleSql] else [])
         @ (if truthy minSalary then [minSalarySql] else [])
         @ (if length hasEquity = 0 then [allEquitySql] else [])
         @ (if toLowerCase hasEquity = ''true'' then [hasEquitySql] else [])
         @ (if toLowerCase hasEquity = ''false'' then [hasNoEquitySql] else []))"

definition queryFilters_of :: "string list \<Rightarrow> string" where
  "queryFilters_of queries =
     (if length queries \<ge> 1 then ''WHERE '' @ join '' AND '' queries else [])"

definition title_arg :: "string option \<Rightarrow> string" where
  "title_arg t = (case t of None \<Rightarrow> [] | Some s \<Rightarrow> s)"

definition minSalary_arg :: "min_salary option \<Rightarrow> min_salary" where
  "minSalary_arg m = (case m of None \<Rightarrow> Null | Some n \<Rightarrow> n)"

definition hasEquity_arg :: "string option \<Rightarrow> string" where
  "hasEquity_arg h = (case h of None \<Rightarrow> [] | Some s \<Rightarrow> s)"

definition createWhereSqlQueryFilters ::
  "string option \<Rightarrow> min_salary option \<Rightarrow> string option \<Rightarrow> error + string" where
  "createWhereSqlQueryFilters t m h =
     (if number_ge (minSalary_arg m) 1000000 then Inl (BadRequestError SalaryLimit)
      else Inr (queryFilters_of (queries_of (title_arg t) (minSalary_arg m) (hasEquity_arg h))))"

text \<open>
  \<^verbatim>\<open>Job.findAll\<close>: the compiled string, and nothing else, goes into the statement.
\<close>

definition findAll ::
  "db \<Rightarrow> string option \<Rightarrow> min_salary option \<Rightarrow> string option \<Rightarrow> (error + numeric job list) \<times> db" where
  "findAll d t m h =
     (case createWhereSqlQueryFilters t m h of
        Inl e \<Rightarrow> (Inl e, d)
      | Inr queryFilters \<Rightarrow> query_SELECT_jobs d queryFilters)"

text \<open>\<^verbatim>\<open>Job.get\<close>\<close>

definition get :: "db \<Rightarrow> string \<Rightarrow> (error + numeric job) \<times> db" where
  "get d t =
     (let (jobRes, d1) = query_SELECT_job d (toLowerCase t)
      in case jobRes of
           [] \<Rightarrow> (Inl (NotFoundError (NoJob t)), d1)
         | j # _ \<Rightarrow> (Inr j, d1))"

text \<open>
  \<^verbatim>\<open>Job.update\<close>. Its documentation says that the data can include
  \<^verbatim>\<open>{ title, salary, equity, companyHandle }\<close>: an entry of the data is one of these
  fields with a value of its type, and the data is the list of its entries in insertion
  order (an object has every key at most once).
\<close>

datatype job_field =
    Title string
  | Salary int
  | Equity rat
  | CompanyHandle string

fun entry :: "job_field \<Rightarrow> string \<times> jsval" where
  "entry (Title s) = (''title'', JStr s)"
| "entry (Salary n) = (''salary'', JNum (of_int n))"
| "entry (Equity q) = (''equity'', JNum q)"
| "entry (CompanyHandle s) = (''companyHandle'', JStr s)"

definition jsToSql_job :: "string \<rightharpoonup> string" where
  "jsToSql_job = [''companyHandle'' \<mapsto> ''company_handle'']"

definition update :: "db \<Rightarrow> string \<Rightarrow> job_field list \<Rightarrow> (error + numeric job) \<times> db" where
  "update d t dat =
     (case sqlForPartialUpdate (map entry dat) jsToSql_job of
        Inl e \<Rightarrow> (Inl e, d)
      | Inr pu \<Rightarrow>
          let titleVarIdx = length (boundValues pu) + 1;
              (result, d1) =
                 query_UPDATE d (clauses pu) titleVarIdx (boundValues pu @ [JStr (toLowerCase t)])
          in (case result of
                Inl e \<Rightarrow> (Inl e, d1)
              | Inr [] \<Rightarrow> (Inl (NotFoundError (NoJob t)), d1)
              | Inr (j # _) \<Rightarrow> (Inr j, d1)))"

text \<open>\<^verbatim>\<open>Job.remove\<close>: returns nothing (\<^verbatim>\<open>undefined\<close>).\<close>

definition remove :: "db \<Rightarrow> string \<Rightarrow> (error + unit) \<times> db" where
  "remove d t =
     (let (result, d1) = query_DELETE d (toLowerCase t)
      in case result of
           [] \<Rightarrow> (Inl (NotFoundError (NoJob t)), d1)
         | j # _ \<Rightarrow> (Inr (), d1))"

text \<open>
  The statement that \<^verbatim>\<open>Job.update\<close> sends for non-empty data: the clauses that the
  builder returns for the entries of the data under the override table of the job, and
  the values bound to it, those of the data followed by the lower-cased key.
\<close>

definition update_clauses :: "job_field list \<Rightarrow> clause list" where
  "update_clauses dat =
     map (\<lambda>(colName, idx). \<lparr>column = fieldMapper jsToSql_job colName, placeholder = idx + 1\<rparr>)
       (zip (map fst (map entry dat)) [0..<length dat])"

definition update_params :: "job_field list \<Rightarrow> string \<Rightarrow> jsval list" where
  "update_params dat k = map snd (map entry dat) @ [JStr (toLowerCase k)]"

subsection \<open>Reading the compiled filters\<close>

text \<open>
  \<open>reads q c\<close>: the store reads the text \<open>q\<close>, at the end of a statement or before
  \<^verbatim>\<open>AND\<close>, as the condition \<open>c\<close>. \<open>conditions_of\<close> are the conditions that the
  compiled filters stand for when the title has no single quote. \<open>numeric_value\<close> is
  the number that a returned equity stands for, and \<open>equity_selected\<close> the rows that
  the clause compiled for a value of \<^verbatim>\<open>hasEquity\<close> lets through.
\<close>

definition reads :: "string \<Rightarrow> condition \<Rightarrow> bool" where
  "reads q c \<longleftrightarrow>
     (\<forall>rest. rest = [] \<or> (\<exists>r. rest = '' AND '' @ r) \<longrightarrow> read_condition (q @ rest) = Some (c, rest))"

definition conditions_of :: "string \<Rightarrow> min_salary \<Rightarrow> string \<Rightarrow> condition list" where
  "conditions_of title' minSalary hasEquity =
     (if title' \<noteq> [] then [LOWER_title_LIKE (''%'' @ toLowerCase title' @ ''%'')] else [])
     @ (case minSalary of
          Null \<Rightarrow> []
        | Num n \<Rightarrow> if n \<noteq> 0 then [salary_GE n] else []
        | Digits n \<Rightarrow> [salary_GE n])
     @ (if hasEquity = [] then [equity_GE_0] else [])
     @ (if toLowerCase hasEquity = ''true'' then [equity_GT_0] else [])
     @ (if toLowerCase hasEquity = ''false'' then [equity_EQ_0] else [])"



subsection \<open>Data of the tests\<close>

text \<open>
  The update request and the override table of the unit test of
  \<^verbatim>\<open>sqlForPartialUpdate\<close>, and the three jobs that the tests of the routes find in
  the table. Every statement that the properties below send to the store of the tests
  is one that the reader reads, so its \<open>unread\<close> is never asked; it is set to a
  failure.
\<close>

definition test_dataToUpdate :: "(string \<times> jsval) list" where
  "test_dataToUpdate = [(''firstName'', JStr ''Aliya''), (''age'', JNum 32), (''logoUrl'', JStr ''https://image.jpg'')]"

definition test_jsToSql :: "string \<rightharpoonup> string" where
  "test_jsToSql = [''firstName'' \<mapsto> ''first_name'', ''logoUrl'' \<mapsto> ''logo_url'']"

definition job1 :: row where
  "job1 = \<lparr>title = ''job1'', salary = 50000, equity = 0, companyHandle = ''c1''\<rparr>"

definition job2 :: row where
  "job2 = \<lparr>title = ''job2'', salary = 175000, equity = 1, companyHandle = ''c2''\<rparr>"

definition engineer :: row where
  "engineer = \<lparr>title = ''Engineer'', salary = 200000, equity = 3 / 4, companyHandle = ''c3''\<rparr>"

definition test_db :: db where
  "test_db = \<lparr>jobs = [job1, job2, engineer], statements = [],
               unread = (\<lambda>queryFilters rows. Inl StoreFailure)\<rparr>"

text \<open>
  A row with negative equity, which \<^verbatim>\<open>create\<close> accepts, and a table that holds
  only this row.
\<close>

definition underwater :: row where
  "underwater = \<lparr>title = ''underwater'', salary = 1, equity = - 1 / 2, companyHandle = ''c1''\<rparr>"


text \<open>
  The new job of the tests of the routes; a job with its equity above 1, a negative
  salary and the title of \<open>job1\<close> in another case; a job with a negative salary and
  the title of \<open>job2\<close> in another case; and a valid job with the title of \<open>job1\<close>
  in another case.
\<close>

definition job3 :: row where
  "job3 = \<lparr>title = ''job3'', salary = 50000, equity = 1 / 5, companyHandle = ''c1''\<rparr>"

definition bad_job :: row where
  "bad_job = \<lparr>title = ''JOB1'', salary = - 1, equity = 11 / 10, companyHandle = ''c1''\<rparr>"

definition underpaid :: row where
  "underpaid = \<lparr>title = ''JOB2'', salary = - 1, equity = 1 / 2, companyHandle = ''c2''\<rparr>"

definition job1_again :: row where
  "job1_again = \<lparr>title = ''Job1'', salary = 60000, equity = 1 / 2, companyHandle = ''c2''\<rparr>"

section \<open>Properties\<close>

subsection \<open>Auxiliary facts\<close>

lemma sqlForPartialUpdate_nonempty:
  "u \<noteq> [] \<Longrightarrow> sqlForPartialUpdate u m =
     Inr \<lparr>clauses = map (\<lambda>(colName, idx). \<lparr>column = fieldMapper m colName, placeholder = idx + 1\<rparr>)
                       (zip (map fst u) [0..<length u]),
          boundValues = map snd u\<rparr>"
  by (simp add: sqlForPartialUpdate_def)

lemma show_nat_digit: "n < 10 \<Longrightarrow> show_nat n = [digit_char n]"
  by (simp add: show_nat.simps)

lemma show_nat_digits:
  "show_nat (Suc 0) = ''1''" "show_nat 2 = ''2''" "show_nat 3 = ''3''"
  "show_nat (Suc (Suc 0)) = ''2''" "show_nat (Suc (Suc (Suc 0))) = ''3''"
  by (simp_all add: show_nat_digit digit_char_def)

lemmas string_defs = toLowerCase_def LOWER_def lower_char_def upper_letters_def lower_letters_def
  single_quote_def double_quote_def backslash_def

lemmas test_defs = test_db_def job1_def job2_def engineer_def

lemma lower_simps:
  "toLowerCase ''true'' = ''true''" "toLowerCase ''false'' = ''false''" "toLowerCase ''TRUE'' = ''true''"
  "toLowerCase ''maybe'' = ''maybe''" "toLowerCase ''%'' = ''%''" "toLowerCase ''_'' = ''_''"
  "toLowerCase ''JOB1'' = ''job1''" "LOWER ''job1'' = ''job1''" "LOWER ''job2'' = ''job2''"
  "LOWER ''Engineer'' = ''engineer''"
  by (simp_all add: toLowerCase_def LOWER_def lower_char_def upper_letters_def lower_letters_def)

lemma like_any: "like_match ''%'' s"
  by (induction s) simp_all

lemma like_skip: "like_match ps s \<Longrightarrow> like_match (CHR ''%'' # ps) s"
  by simp

lemma like_percent: "like_match ''%%%'' s"
  by (rule like_skip, rule like_skip, rule like_any)

lemma like_underscore: "like_match ''%_%'' s \<longleftrightarrow> s \<noteq> []"
proof (cases s)
  case Nil
  then show ?thesis by simp
next
  case (Cons c t)
  have "like_match ''_%'' (c # t)"
    using like_any [of t] by simp
  then have "like_match ''%_%'' (c # t)"
    by (rule like_skip)
  with Cons show ?thesis by simp
qed

lemma LOWER_Nil: "LOWER s = [] \<longleftrightarrow> s = []"
  by (simp add: LOWER_def)

lemma toLowerCase_Nil: "toLowerCase s = [] \<longleftrightarrow> s = []" "toLowerCase [] = []"
  by (simp_all add: toLowerCase_def)

lemma LOWER_toLowerCase: "LOWER s = toLowerCase s"
  by (simp add: LOWER_def toLowerCase_def)

lemma strip_prefix_append: "strip_prefix p (p @ s) = Some s"
  by (induction p) simp_all

lemma digits_table:
  "list_all (\<lambda>k. is_digit (digit_char k) \<and> digit_value (digit_char k) = k) [0..<10]"
  by code_simp

lemma digit_char_facts:
  assumes "n < 10"
  shows "is_digit (digit_char n)" and "digit_value (digit_char n) = n"
  using assms digits_table by (simp_all add: list_all_iff)

lemma nat_of_digits_snoc: "nat_of_digits (ds @ [c]) = 10 * nat_of_digits ds + digit_value c"
  by (simp add: nat_of_digits_def)

lemma show_nat_not_Nil: "show_nat n \<noteq> []"
  by (subst show_nat.simps) simp

lemma show_nat_digits_only: "list_all is_digit (show_nat n)"
proof (induction n rule: show_nat.induct)
  case (1 n)
  then show ?case
    by (subst show_nat.simps) (simp add: digit_char_facts)
qed

lemma nat_of_digits_show_nat: "nat_of_digits (show_nat n) = n"
proof (induction n rule: show_nat.induct)
  case (1 n)
  show ?case
  proof (cases "n < 10")
    case True
    then show ?thesis
      by (subst show_nat.simps) (simp add: nat_of_digits_def digit_char_facts)
  next
    case False
    then have "nat_of_digits (show_nat n) = 10 * nat_of_digits (show_nat (n div 10)) + n mod 10"
      by (subst show_nat.simps) (simp add: nat_of_digits_snoc digit_char_facts)
    with False "1.IH" show ?thesis by simp
  qed
qed

lemma takeWhile_digits:
  assumes "rest = [] \<or> \<not> is_digit (hd rest)"
  shows "takeWhile is_digit (show_nat n @ rest) = show_nat n"
    and "dropWhile is_digit (show_nat n @ rest) = rest"
proof -
  have all: "\<forall>c\<in>set (show_nat n). is_digit c"
    using show_nat_digits_only [of n] by (simp add: list_all_iff)
  have t: "takeWhile is_digit rest = []" and d: "dropWhile is_digit rest = rest"
    using assms by (cases rest; simp)+
  show "takeWhile is_digit (show_nat n @ rest) = show_nat n"
    using all t by simp
  show "dropWhile is_digit (show_nat n @ rest) = rest"
    using all d by simp
qed

lemma hd_show_nat: "\<exists>c cs. show_nat n = c # cs \<and> is_digit c"
  using show_nat_not_Nil [of n] show_nat_digits_only [of n] by (cases "show_nat n") simp_all

lemma read_integer_show_int:
  assumes "rest = [] \<or> \<not> is_digit (hd rest)"
  shows "read_integer (show_int n @ rest) = Some (n, rest)"
proof (cases "n < 0")
  case True
  then have "show_int n @ rest = CHR ''-'' # (show_nat (nat (- n)) @ rest)"
    by (simp add: show_int_def)
  then show ?thesis
    using True takeWhile_digits [OF assms, of "nat (- n)"]
    by (simp add: read_integer_def show_nat_not_Nil nat_of_digits_show_nat)
next
  case False
  obtain c cs where c: "show_nat (nat n) = c # cs" "is_digit c"
    using hd_show_nat by blast
  then have "(case show_nat (nat n) @ rest of [] \<Rightarrow> False | c # cs \<Rightarrow> c = CHR ''-'') = False"
    by (auto simp: is_digit_def)
  then show ?thesis
    using False takeWhile_digits [OF assms, of "nat n"]
    by (simp add: read_integer_def show_int_def show_nat_not_Nil nat_of_digits_show_nat)
qed

lemma lower_char_quote: "lower_char c = single_quote \<longleftrightarrow> c = single_quote"
proof (cases "map_of (zip upper_letters lower_letters) c")
  case None
  then show ?thesis by (simp add: lower_char_def)
next
  case (Some d)
  then have "d \<in> set lower_letters" "c \<in> set upper_letters"
    by (auto dest!: map_of_SomeD dest: set_zip_rightD set_zip_leftD)
  then have "d \<noteq> single_quote" "c \<noteq> single_quote"
    by (auto simp: lower_letters_def upper_letters_def single_quote_def)
  with Some show ?thesis by (simp add: lower_char_def)
qed

lemma quote_free_toLowerCase: "single_quote \<in> set (toLowerCase t) \<longleftrightarrow> single_quote \<in> set t"
  by (simp add: toLowerCase_def image_iff) (metis lower_char_quote)

lemma pattern_ok_percent: "pattern_ok (p @ ''%'')"
  by (induction p rule: pattern_ok.induct) (simp_all add: backslash_def)

lemma pattern_ok_operand: "pattern_ok (''%'' @ operand @ ''%'')"
  using pattern_ok_percent [of operand]
  by (cases "operand @ ''%''") (simp_all add: backslash_def)

lemma reads_title:
  assumes "single_quote \<notin> set operand"
  shows "reads (''LOWER(title) LIKE '' @ [single_quote] @ ''%'' @ operand @ ''%'' @ [single_quote])
           (LOWER_title_LIKE (''%'' @ operand @ ''%''))"
proof -
  have q: "CHR ''%'' \<noteq> single_quote"
    by (simp add: single_quote_def)
  have t: "takeWhile (\<lambda>c. c \<noteq> single_quote) ((''%'' @ operand @ ''%'') @ single_quote # rest)
      = ''%'' @ operand @ ''%''" for rest
    using assms q by (subst takeWhile_append2) auto
  have d: "dropWhile (\<lambda>c. c \<noteq> single_quote) ((''%'' @ operand @ ''%'') @ single_quote # rest)
      = single_quote # rest" for rest
    using assms q by (subst dropWhile_append2) auto
  have "read_condition ((''LOWER(title) LIKE '' @ [single_quote]) @
      ((''%'' @ operand @ ''%'') @ single_quote # rest)) =
      Some (LOWER_title_LIKE (''%'' @ operand @ ''%''), rest)" for rest
    unfolding read_condition_def strip_prefix_append
    by (simp only: option.case t d list.case pattern_ok_operand if_True)
  then show ?thesis
    by (simp add: reads_def)
qed

lemma reads_salary: "reads (''salary >= '' @ show_int n) (salary_GE n)"
proof -
  have "read_integer (show_int n @ rest) = Some (n, rest)"
    if "rest = [] \<or> (\<exists>r. rest = '' AND '' @ r)" for rest
    using that by (intro read_integer_show_int) (auto simp: is_digit_def)
  then show ?thesis
    by (auto simp: reads_def read_condition_def single_quote_def)
qed

lemma reads_equity:
  "reads ''equity >= 0'' equity_GE_0" "reads ''equity > 0'' equity_GT_0"
  "reads ''equity = 0'' equity_EQ_0"
  by (simp_all add: reads_def read_condition_def single_quote_def)

lemma read_conjunction_mono:
  "read_conjunction k s = Some cs \<Longrightarrow> k \<le> k' \<Longrightarrow> read_conjunction k' s = Some cs"
proof (induction k s arbitrary: k' cs rule: read_conjunction.induct)
  case (1 s)
  then show ?case by simp
next
  case (2 k s)
  then obtain j where j: "k' = Suc j" "k \<le> j"
    by (cases k') auto
  from "2.prems"(1) show ?case
    unfolding j
    by (auto split: option.splits if_splits simp: "2.IH" [OF _ _ _ _ _ j(2)])
qed


lemma reads_not_Nil: "reads q c \<Longrightarrow> q \<noteq> []"
  by (auto simp: reads_def read_condition_def)

lemma read_conjunction_join:
  "list_all2 reads qs cs \<Longrightarrow> qs \<noteq> [] \<Longrightarrow>
   read_conjunction (length qs) (join '' AND '' qs) = Some cs"
proof (induction "'' AND ''" qs arbitrary: cs rule: join.induct)
  case 1
  then show ?case by simp
next
  case (2 q)
  then obtain c where c: "cs = [c]" "reads q c"
    by (auto simp: list_all2_Cons1)
  from c(2) have "read_condition (q @ []) = Some (c, [])"
    unfolding reads_def by blast
  then show ?case
    using c(1) by simp
next
  case (3 q q' qs)
  then obtain c cs' where c: "cs = c # cs'" "reads q c" "list_all2 reads (q' # qs) cs'"
    by (auto simp: list_all2_Cons1)
  let ?r = "join '' AND '' (q' # qs)"
  from c(2) have "read_condition (q @ '' AND '' @ ?r) = Some (c, '' AND '' @ ?r)"
    unfolding reads_def by blast
  moreover have "read_conjunction (length (q' # qs)) ?r = Some cs'"
    using "3.hyps" c(3) by simp
  ultimately show ?case
    using c(1) strip_prefix_append [of "'' AND ''" ?r] by simp
qed

lemma length_join:
  "\<forall>q\<in>set qs. q \<noteq> [] \<Longrightarrow> length qs \<le> length (join sep qs)"
proof (induction sep qs rule: join.induct)
  case (1 sep)
  then show ?case by simp
next
  case (2 sep x)
  then show ?case by (cases x) simp_all
next
  case (3 sep x y ys)
  then have "length (y # ys) \<le> length (join sep (y # ys))" and "1 \<le> length x"
    by (simp_all add: Suc_le_eq)
  then show ?case by (simp del: length_greater_0_conv)
qed

lemma read_where_join:
  assumes "list_all2 reads qs cs"
  shows "read_where (if qs = [] then [] else ''WHERE '' @ join '' AND '' qs) = Some cs"
proof (cases "qs = []")
  case True
  with assms show ?thesis by (simp add: read_where_def)
next
  case False
  have "\<forall>q\<in>set qs. q \<noteq> []"
    using assms by (metis in_set_conv_nth list_all2_conv_all_nth reads_not_Nil)
  then have "length qs \<le> length (join '' AND '' qs)"
    by (rule length_join)
  then have "read_conjunction (length (join '' AND '' qs)) (join '' AND '' qs) = Some cs"
    using read_conjunction_join [OF assms False] read_conjunction_mono by blast
  then show ?thesis
    using False strip_prefix_append [of "''WHERE ''" "join '' AND '' qs"]
    by (simp add: read_where_def)
qed


lemma queryFilters_of_text:
  "queryFilters_of qs = (if qs = [] then [] else ''WHERE '' @ join '' AND '' qs)"
  by (cases qs) (simp_all add: queryFilters_of_def)

lemma compiled_reads:
  assumes "single_quote \<notin> set T"
  shows "list_all2 reads (queries_of T M H) (conditions_of T M H)"
proof -
  have a: "list_all2 reads
      (if length T > 0
       then [''LOWER(title) LIKE '' @ [single_quote] @ ''%'' @ toLowerCase T @ ''%'' @ [single_quote]]
       else [])
      (if T \<noteq> [] then [LOWER_title_LIKE (''%'' @ toLowerCase T @ ''%'')] else [])"
    using assms reads_title [of "toLowerCase T"] by (simp add: quote_free_toLowerCase)
  have b: "list_all2 reads
      (if truthy M then [''salary >= '' @ template_number M] else [])
      (case M of Null \<Rightarrow> [] | Num n \<Rightarrow> if n \<noteq> 0 then [salary_GE n] else [] | Digits n \<Rightarrow> [salary_GE n])"
    by (cases M) (use reads_salary in simp_all)
  have c: "list_all2 reads (if length H = 0 then [''equity >= 0''] else [])
      (if H = [] then [equity_GE_0] else [])"
    by (simp add: reads_equity)
  have d: "list_all2 reads (if toLowerCase H = ''true'' then [''equity > 0''] else [])
      (if toLowerCase H = ''true'' then [equity_GT_0] else [])"
    by (simp add: reads_equity)
  have e: "list_all2 reads (if toLowerCase H = ''false'' then [''equity = 0''] else [])
      (if toLowerCase H = ''false'' then [equity_EQ_0] else [])"
    by (simp add: reads_equity)
  show ?thesis
    unfolding queries_of_def conditions_of_def Let_def
    by (intro list_all2_appendI a b c d e)
qed

lemma read_where_single: "reads q c \<Longrightarrow> read_where (''WHERE '' @ q) = Some [c]"
  using read_where_join [of "[q]" "[c]"] by simp

lemma compiled_read_where:
  assumes "single_quote \<notin> set T"
  shows "read_where (queryFilters_of (queries_of T M H)) = Some (conditions_of T M H)"
  unfolding queryFilters_of_text
  by (rule read_where_join) (rule compiled_reads [OF assms])

lemma findAll_ceiling:
  "number_ge (minSalary_arg m) 1000000 \<Longrightarrow> findAll d t m h = (Inl (BadRequestError SalaryLimit), d)"
  by (simp add: findAll_def createWhereSqlQueryFilters_def)

lemma findAll_rows:
  assumes "\<not> number_ge (minSalary_arg m) 1000000" and "single_quote \<notin> set (title_arg t)"
  shows "fst (findAll d t m h) =
     Inr (map returning
            (filter (\<lambda>r. list_all (\<lambda>c. holds c r)
                       (conditions_of (title_arg t) (minSalary_arg m) (hasEquity_arg h)))
               (jobs d)))"
  using assms(1)
  by (simp add: findAll_def createWhereSqlQueryFilters_def query_SELECT_jobs_def
      compiled_read_where [OF assms(2)])

lemma create_unfold:
  "create d x =
     (let d1 = executed d (SELECT_title (toLowerCase (title x))) in
      if \<not> equity x \<le> 1 then (Inl (BadRequestError (InvalidEquity (equity x))), d1)
      else if \<not> salary x \<ge> 0 then (Inl (BadRequestError (InvalidSalary (salary x))), d1)
      else if \<exists>r\<in>set (jobs d). LOWER (title r) = toLowerCase (title x)
        then (Inl (BadRequestError (DuplicateJob (title x))), d1)
      else (Inr ((returning x)\<lparr>equity := Float (equity x)\<rparr>),
            executed (d1\<lparr>jobs := jobs d @ [x]\<rparr>) (INSERT_INTO_jobs x)))"
  by (auto simp: create_def query_SELECT_title_def query_INSERT_def Let_def returning_def
      executed_def filter_empty_conv)

lemma get_unfold:
  "get d k =
     (case filter (\<lambda>r. LOWER (title r) = toLowerCase k) (jobs d) of
        [] \<Rightarrow> Inl (NotFoundError (NoJob k))
      | r # _ \<Rightarrow> Inr (returning r),
      executed d (SELECT_job (toLowerCase k)))"
  by (simp add: get_def query_SELECT_job_def split: list.splits)

lemma remove_unfold:
  "remove d k =
     (if \<exists>r\<in>set (jobs d). LOWER (title r) = toLowerCase k then Inr ()
      else Inl (NotFoundError (NoJob k)),
      executed (d\<lparr>jobs := filter (\<lambda>r. LOWER (title r) \<noteq> toLowerCase k) (jobs d)\<rparr>)
        (DELETE_FROM_jobs (toLowerCase k)))"
  by (auto simp: remove_def query_DELETE_def filter_empty_conv split: list.splits)

lemma entry_accepted:
  "column_accepts (fieldMapper jsToSql_job (fst (entry f))) (Some (snd (entry f)))"
  by (cases f) (simp_all add: column_accepts_def fieldMapper_def jsToSql_job_def)

lemma update_clauses_accepted:
  "list_all (\<lambda>c. column_accepts (column c) (param (update_params dat k) (placeholder c)))
     (update_clauses dat)"
  by (simp add: list_all_length update_clauses_def update_params_def param_def nth_append
      entry_accepted)

lemma query_UPDATE_ok:
  assumes "param ps i = Some (JStr k)"
    and "list_all (\<lambda>c. column_accepts (column c) (param ps (placeholder c))) cs"
  shows "query_UPDATE d cs i ps =
     (Inr (map (\<lambda>r. returning (assign cs ps r)) (filter (\<lambda>r. LOWER (title r) = k) (jobs d))),
      (executed d (UPDATE_jobs cs i ps))
        \<lparr>jobs := map (\<lambda>r. if LOWER (title r) = k then assign cs ps r else r) (jobs d)\<rparr>)"
  using assms by (simp add: query_UPDATE_def Let_def)

lemma update_unfold:
  assumes "dat \<noteq> []"
  shows "update d k dat =
     (case filter (\<lambda>r. LOWER (title r) = toLowerCase k) (jobs d) of
        [] \<Rightarrow> Inl (NotFoundError (NoJob k))
      | r # _ \<Rightarrow> Inr (returning (assign (update_clauses dat) (update_params dat k) r)),
      (executed d (UPDATE_jobs (update_clauses dat) (length dat + 1) (update_params dat k)))
        \<lparr>jobs := map (\<lambda>r. if LOWER (title r) = toLowerCase k
                           then assign (update_clauses dat) (update_params dat k) r else r) (jobs d)\<rparr>)"
proof -
  have p: "param (update_params dat k) (length dat + 1) = Some (JStr (toLowerCase k))"
    by (simp add: param_def update_params_def nth_append)
  have pu: "sqlForPartialUpdate (map entry dat) jsToSql_job =
      Inr \<lparr>clauses = update_clauses dat, boundValues = map snd (map entry dat)\<rparr>"
    using assms by (simp add: sqlForPartialUpdate_nonempty update_clauses_def)
  note q = query_UPDATE_ok [OF p update_clauses_accepted, of d]
  show ?thesis
    unfolding update_def pu
    apply (simp only: sum.case Let_def partial_update.select_convs length_map
        update_params_def [symmetric] q prod.case)
    apply (simp split: list.splits)
    done
qed

subsection \<open>The partial-update builder\<close>

text \<open>
  C1. For every non-empty update request \<open>u\<close> and every override map \<open>m\<close>, the builder
  returns as many clauses and as many bound values as \<open>u\<close> has entries; the i-th clause
  is the quoted column (the override of the i-th key if there is one, the key itself
  otherwise) equated to the placeholder \<open>$(i+1)\<close>, and the i-th bound value is the value
  of the i-th key, both in the order of the keys of \<open>u\<close>.
\<close>

theorem C1_partial_update_clauses:
  assumes "u \<noteq> []"
  shows "\<exists>pu. sqlForPartialUpdate u m = Inr pu
           \<and> length (clauses pu) = length u
           \<and> length (boundValues pu) = length u
           \<and> (\<forall>i < length u.
                 column (clauses pu ! i) = (case m (fst (u ! i)) of Some c \<Rightarrow> c | None \<Rightarrow> fst (u ! i))
               \<and> placeholder (clauses pu ! i) = i + 1
               \<and> clause_text (clauses pu ! i) =
                   [double_quote] @ (case m (fst (u ! i)) of Some c \<Rightarrow> c | None \<Rightarrow> fst (u ! i))
                     @ [double_quote] @ ''=$'' @ show_nat (i + 1)
               \<and> boundValues pu ! i = snd (u ! i))
           \<and> setCols pu = join '', '' (map clause_text (clauses pu))"
  using assms
  by (simp add: sqlForPartialUpdate_nonempty clause_text_def fieldMapper_def setCols_def)

theorem C1_partial_update_clauses_witness:
  "test_dataToUpdate \<noteq> []
   \<and> (\<exists>pu. sqlForPartialUpdate test_dataToUpdate test_jsToSql = Inr pu
         \<and> length (clauses pu) = 3
         \<and> clause_text (clauses pu ! 0) = [double_quote] @ ''first_name'' @ [double_quote] @ ''=$1''
         \<and> clause_text (clauses pu ! 1) = [double_quote] @ ''age'' @ [double_quote] @ ''=$2''
         \<and> clause_text (clauses pu ! 2) = [double_quote] @ ''logo_url'' @ [double_quote] @ ''=$3''
         \<and> setCols pu =
             [double_quote] @ ''first_name'' @ [double_quote] @ ''=$1, ''
               @ [double_quote] @ ''age'' @ [double_quote] @ ''=$2, ''
               @ [double_quote] @ ''logo_url'' @ [double_quote] @ ''=$3''
         \<and> boundValues pu = [JStr ''Aliya'', JNum 32, JStr ''https://image.jpg''])"
proof -
  have ne: "test_dataToUpdate \<noteq> []"
    by (simp add: test_dataToUpdate_def)
  from C1_partial_update_clauses [OF ne, of test_jsToSql]
  obtain pu where pu: "sqlForPartialUpdate test_dataToUpdate test_jsToSql = Inr pu"
    and len: "length (clauses pu) = length test_dataToUpdate"
    and lenv: "length (boundValues pu) = length test_dataToUpdate"
    and nth: "\<forall>i < length test_dataToUpdate.
                 column (clauses pu ! i) = (case test_jsToSql (fst (test_dataToUpdate ! i)) of Some c \<Rightarrow> c | None \<Rightarrow> fst (test_dataToUpdate ! i))
               \<and> placeholder (clauses pu ! i) = i + 1
               \<and> clause_text (clauses pu ! i) =
                   [double_quote] @ (case test_jsToSql (fst (test_dataToUpdate ! i)) of Some c \<Rightarrow> c | None \<Rightarrow> fst (test_dataToUpdate ! i))
                     @ [double_quote] @ ''=$'' @ show_nat (i + 1)
               \<and> boundValues pu ! i = snd (test_dataToUpdate ! i)"
    and sc: "setCols pu = join '', '' (map clause_text (clauses pu))"
    by blast
  have l3: "length test_dataToUpdate = 3" by (simp add: test_dataToUpdate_def)
  have c0: "clause_text (clauses pu ! 0) = [double_quote] @ ''first_name'' @ [double_quote] @ ''=$1''"
    using nth [rule_format, of 0] by (simp add: test_dataToUpdate_def test_jsToSql_def show_nat_digits)
  have c1: "clause_text (clauses pu ! 1) = [double_quote] @ ''age'' @ [double_quote] @ ''=$2''"
    using nth [rule_format, of 1] by (simp add: test_dataToUpdate_def test_jsToSql_def show_nat_digits)
  have c2: "clause_text (clauses pu ! 2) = [double_quote] @ ''logo_url'' @ [double_quote] @ ''=$3''"
    using nth [rule_format, of 2] by (simp add: test_dataToUpdate_def test_jsToSql_def show_nat_digits)
  have v: "boundValues pu = [JStr ''Aliya'', JNum 32, JStr ''https://image.jpg'']"
  proof (rule nth_equalityI)
    show "length (boundValues pu) = length [JStr ''Aliya'', JNum 32, JStr ''https://image.jpg'']"
      using lenv l3 by simp
  next
    fix i assume "i < length (boundValues pu)"
    then have "i < 3" using lenv l3 by simp
    then consider "i = 0" | "i = 1" | "i = 2" by linarith
    then show "boundValues pu ! i = [JStr ''Aliya'', JNum 32, JStr ''https://image.jpg''] ! i"
      using nth [rule_format, of i] by cases (simp_all add: test_dataToUpdate_def)
  qed
  have "clauses pu = [clauses pu ! 0, clauses pu ! 1, clauses pu ! 2]"
    using len l3 by (intro nth_equalityI) (auto simp: less_Suc_eq numeral_3_eq_3 numeral_2_eq_2)
  then have "map clause_text (clauses pu)
      = [clause_text (clauses pu ! 0), clause_text (clauses pu ! 1), clause_text (clauses pu ! 2)]"
    by (metis list.simps(8) list.simps(9))
  then have t: "setCols pu =
             [double_quote] @ ''first_name'' @ [double_quote] @ ''=$1, ''
               @ [double_quote] @ ''age'' @ [double_quote] @ ''=$2, ''
               @ [double_quote] @ ''logo_url'' @ [double_quote] @ ''=$3''"
    using sc c0 c1 c2 by simp
  show ?thesis using ne pu len l3 c0 c1 c2 v t by auto
qed

text \<open>
  C4. For every override map, the builder fails with the error "no data" on the empty
  update request, with no clause built; so \<open>update\<close> with empty data fails with that
  error for every key, and leaves the store as it was (no statement is executed).
\<close>

theorem C4_empty_update_rejected:
  "sqlForPartialUpdate [] m = Inl (BadRequestError NoData)
   \<and> update d k [] = (Inl (BadRequestError NoData), d)"
  by (simp add: sqlForPartialUpdate_def update_def)

subsection \<open>The filter compiler\<close>






text \<open>
  C10. A non-empty title filter compiles to the clause
  \<^verbatim>\<open>LOWER(title) LIKE '%<operand>%'\<close> at the head of the text, the lower-cased operand
  spliced into the pattern as it is. For an operand with no single quote the store reads
  the clause as the match of the lower-cased title against the pattern
  \<^verbatim>\<open>%<operand>%\<close>, and \<open>findAll\<close> returns, of the rows returned without the title
  filter, those whose title matches. The match has \<^verbatim>\<open>%\<close> and \<^verbatim>\<open>_\<close> as wildcards:
  the filter \<^verbatim>\<open>%\<close> matches every row, and the filter \<^verbatim>\<open>_\<close> every row with a
  non-empty title, whether or not the title contains the character.
\<close>

theorem C10_title_filter_wildcards:
  "(t \<noteq> [] \<and> \<not> number_ge (minSalary_arg m) 1000000 \<longrightarrow>
      createWhereSqlQueryFilters (Some t) m h =
        Inr (''WHERE '' @ join '' AND ''
               ((''LOWER(title) LIKE '' @ [single_quote] @ ''%'' @ toLowerCase t @ ''%'' @ [single_quote])
                # queries_of [] (minSalary_arg m) (hasEquity_arg h))))
 \<and> (single_quote \<notin> set t \<longrightarrow>
      read_where (''WHERE LOWER(title) LIKE '' @ [single_quote] @ ''%'' @ toLowerCase t @ ''%''
                    @ [single_quote])
        = Some [LOWER_title_LIKE (''%'' @ toLowerCase t @ ''%'')])
 \<and> (t \<noteq> [] \<and> single_quote \<notin> set t \<longrightarrow>
      fst (findAll d (Some t) m h) =
        (case fst (findAll d None m h) of
           Inl e \<Rightarrow> Inl e
         | Inr rows \<Rightarrow>
             Inr (filter (\<lambda>j. like_match (''%'' @ toLowerCase t @ ''%'') (LOWER (title j))) rows)))
 \<and> holds (LOWER_title_LIKE p) r = like_match p (LOWER (title r))
 \<and> like_match ''%%%'' s
 \<and> (like_match ''%_%'' s \<longleftrightarrow> s \<noteq> [])
 \<and> fst (findAll d (Some ''%'') m h) = fst (findAll d None m h)
 \<and> fst (findAll d (Some ''_'') m h) =
     (case fst (findAll d None m h) of
        Inl e \<Rightarrow> Inl e
      | Inr rows \<Rightarrow> Inr (filter (\<lambda>j. title j \<noteq> []) rows))"
proof -
  have cmp: "createWhereSqlQueryFilters (Some t) m h =
        Inr (''WHERE '' @ join '' AND ''
               ((''LOWER(title) LIKE '' @ [single_quote] @ ''%'' @ toLowerCase t @ ''%'' @ [single_quote])
                # queries_of [] (minSalary_arg m) (hasEquity_arg h)))"
    if "t \<noteq> [] \<and> \<not> number_ge (minSalary_arg m) 1000000"
  proof -
    have "queries_of t (minSalary_arg m) (hasEquity_arg h) =
        (''LOWER(title) LIKE '' @ [single_quote] @ ''%'' @ toLowerCase t @ ''%'' @ [single_quote])
        # queries_of [] (minSalary_arg m) (hasEquity_arg h)"
      using that by (simp add: queries_of_def)
    then show ?thesis
      using that by (simp add: createWhereSqlQueryFilters_def queryFilters_of_text title_arg_def)
  qed
  have rd: "read_where (''WHERE LOWER(title) LIKE '' @ [single_quote] @ ''%'' @ toLowerCase t @ ''%''
                    @ [single_quote])
        = Some [LOWER_title_LIKE (''%'' @ toLowerCase t @ ''%'')]"
    if "single_quote \<notin> set t"
    using read_where_single [OF reads_title [of "toLowerCase t"]] that
    by (simp add: quote_free_toLowerCase)
  have rows: "fst (findAll d (Some x) m h) =
        (case fst (findAll d None m h) of
           Inl e \<Rightarrow> Inl e
         | Inr rows \<Rightarrow>
             Inr (filter (\<lambda>j. like_match (''%'' @ toLowerCase x @ ''%'') (LOWER (title j))) rows))"
    if x: "x \<noteq> [] \<and> single_quote \<notin> set x" for x
  proof (cases "number_ge (minSalary_arg m) 1000000")
    case True
    then show ?thesis by (simp add: findAll_ceiling)
  next
    case False
    have c: "conditions_of (title_arg (Some x)) M H =
        LOWER_title_LIKE (''%'' @ toLowerCase x @ ''%'') # conditions_of (title_arg None) M H" for M H
      using x by (simp add: conditions_of_def title_arg_def)
    have tl: "title (returning y) = title y" for y
      by (simp add: returning_def)
    have l: "fst (findAll d (Some x) m h) =
        Inr (map returning
               (filter (\<lambda>r. list_all (\<lambda>c. holds c r)
                          (conditions_of (title_arg (Some x)) (minSalary_arg m) (hasEquity_arg h)))
                  (jobs d)))"
      using x by (intro findAll_rows [OF False]) (simp add: title_arg_def)
    have r: "fst (findAll d None m h) =
        Inr (map returning
               (filter (\<lambda>r. list_all (\<lambda>c. holds c r)
                          (conditions_of (title_arg None) (minSalary_arg m) (hasEquity_arg h)))
                  (jobs d)))"
      by (intro findAll_rows [OF False]) (simp add: title_arg_def)
    show ?thesis
      unfolding l r c
      by (simp add: filter_map o_def tl conj_commute del: like_match.simps)
  qed
  have pc: "like_match (''%'' @ toLowerCase ''%'' @ ''%'') y" for y
    using like_percent [of y] by (simp add: lower_simps del: like_match.simps)
  have us: "like_match (''%'' @ toLowerCase ''_'' @ ''%'') (LOWER y) \<longleftrightarrow> y \<noteq> []" for y
    using like_underscore [of "LOWER y"] by (simp add: lower_simps LOWER_Nil del: like_match.simps)
  have q: "''%'' \<noteq> [] \<and> single_quote \<notin> set ''%''" "''_'' \<noteq> [] \<and> single_quote \<notin> set ''_''"
    by (simp_all add: single_quote_def)
  have every: "fst (findAll d (Some ''%'') m h) = fst (findAll d None m h)"
    unfolding rows [OF q(1)] by (simp only: pc filter_True) (simp split: sum.splits)
  have nonempty: "fst (findAll d (Some ''_'') m h) =
     (case fst (findAll d None m h) of
        Inl e \<Rightarrow> Inl e
      | Inr rows \<Rightarrow> Inr (filter (\<lambda>j. title j \<noteq> []) rows))"
    unfolding rows [OF q(2)] by (simp only: us)
  show ?thesis
    using cmp rd rows [of t] every nonempty like_percent [of s] like_underscore [of s]
    by (simp del: like_match.simps)
qed

theorem C10_title_filter_wildcards_witness:
  "''%'' \<noteq> [] \<and> \<not> number_ge (minSalary_arg None) 1000000
   \<and> createWhereSqlQueryFilters (Some ''%'') None None
       = Inr (''WHERE LOWER(title) LIKE '' @ [single_quote] @ ''%%%'' @ [single_quote]
              @ '' AND equity >= 0'')
   \<and> single_quote \<notin> set ''Eng''
   \<and> read_where (''WHERE LOWER(title) LIKE '' @ [single_quote] @ ''%eng%'' @ [single_quote])
       = Some [LOWER_title_LIKE ''%eng%'']
   \<and> fst (findAll test_db (Some ''Eng'') None None) = Inr [returning engineer]
   \<and> CHR ''%'' \<notin> set (title job1) \<and> like_match ''%%%'' (LOWER (title job1))
   \<and> CHR ''_'' \<notin> set (title job1) \<and> like_match ''%_%'' (LOWER (title job1))
   \<and> fst (findAll test_db (Some ''%'') None None)
       = Inr [returning job1, returning job2, returning engineer]"
proof -
  note c = C10_title_filter_wildcards [where d = test_db and m = None and h = None]
  have b: "\<not> number_ge (minSalary_arg None) 1000000"
    by (simp add: minSalary_arg_def)
  have e: "toLowerCase ''Eng'' = ''eng''" "single_quote \<notin> set ''Eng''"
    by (simp_all add: string_defs)
  have all: "fst (findAll test_db None None None) = Inr [returning job1, returning job2, returning engineer]"
    using b by (simp add: findAll_rows conditions_of_def title_arg_def hasEquity_arg_def
        minSalary_arg_def toLowerCase_Nil test_defs)
  have "createWhereSqlQueryFilters (Some ''%'') None None
       = Inr (''WHERE LOWER(title) LIKE '' @ [single_quote] @ ''%%%'' @ [single_quote]
              @ '' AND equity >= 0'')"
    using c [where t = "''%''"] b
    by (simp add: queries_of_def minSalary_arg_def hasEquity_arg_def lower_simps toLowerCase_Nil)
  moreover have "read_where (''WHERE LOWER(title) LIKE '' @ [single_quote] @ ''%eng%'' @ [single_quote])
       = Some [LOWER_title_LIKE ''%eng%'']"
    using c [where t = "''Eng''"] e by simp
  moreover have "fst (findAll test_db (Some ''Eng'') None None) = Inr [returning engineer]"
    using c [where t = "''Eng''"] e all
    by (simp add: returning_def test_defs string_defs)
  moreover have "like_match ''%%%'' (LOWER (title job1))" "like_match ''%_%'' (LOWER (title job1))"
    using c [where s = "LOWER (title job1)"]
    by (simp_all add: lower_simps job1_def del: like_match.simps)
  moreover have "fst (findAll test_db (Some ''%'') None None)
       = Inr [returning job1, returning job2, returning engineer]"
    using c all by simp
  ultimately show ?thesis using b e by (simp add: job1_def)
qed

subsection \<open>The operations on the table\<close>



text \<open>
  C6 (as the code has it). \<open>create\<close> rejects, before the insert and with an error that
  names the value, every job with equity above 1 and, next, every job with a negative
  salary; the table is then unchanged. A job it accepts has equity at most 1 and salary
  at least 0 and is appended to the table, so a table whose rows have equity at most 1
  and salary at least 0 stays so. No lower bound on equity is checked.
\<close>

theorem C6_create_bounds:
  "((\<exists>j. fst (create d x) = Inr j) \<longrightarrow>
      equity x \<le> 1 \<and> salary x \<ge> 0 \<and> jobs (snd (create d x)) = jobs d @ [x])
 \<and> (equity x > 1 \<longrightarrow>
      fst (create d x) = Inl (BadRequestError (InvalidEquity (equity x)))
    \<and> jobs (snd (create d x)) = jobs d)
 \<and> (equity x \<le> 1 \<and> salary x < 0 \<longrightarrow>
      fst (create d x) = Inl (BadRequestError (InvalidSalary (salary x)))
    \<and> jobs (snd (create d x)) = jobs d)
 \<and> ((\<forall>r\<in>set (jobs d). equity r \<le> 1 \<and> salary r \<ge> 0) \<longrightarrow>
      (\<forall>r\<in>set (jobs (snd (create d x))). equity r \<le> 1 \<and> salary r \<ge> 0))"
  by (auto simp: create_unfold Let_def executed_def)

theorem C6_create_bounds_witness:
  "(\<exists>j. fst (create test_db job3) = Inr j)
   \<and> equity job3 \<le> 1 \<and> salary job3 \<ge> 0
   \<and> jobs (snd (create test_db job3)) = [job1, job2, engineer, job3]
   \<and> equity bad_job > 1
   \<and> fst (create test_db bad_job) = Inl (BadRequestError (InvalidEquity (11 / 10)))
   \<and> equity underpaid \<le> 1 \<and> salary underpaid < 0
   \<and> fst (create test_db underpaid) = Inl (BadRequestError (InvalidSalary (- 1)))
   \<and> list_all (\<lambda>r. equity r \<le> 1 \<and> salary r \<ge> 0) (jobs test_db)
   \<and> list_all (\<lambda>r. equity r \<le> 1 \<and> salary r \<ge> 0) (jobs (snd (create test_db job3)))"
proof -
  have a: "\<exists>j. fst (create test_db job3) = Inr j"
    by (simp add: create_unfold Let_def test_defs job3_def string_defs)
  have b: "equity bad_job > 1"
    by (simp add: bad_job_def)
  have u: "equity underpaid \<le> 1 \<and> salary underpaid < 0"
    by (simp add: underpaid_def)
  have i: "\<forall>r\<in>set (jobs test_db). equity r \<le> 1 \<and> salary r \<ge> 0"
    by (simp add: test_defs)
  note c = C6_create_bounds [of test_db job3] and c' = C6_create_bounds [of test_db bad_job]
    and c'' = C6_create_bounds [of test_db underpaid]
  have "equity job3 \<le> 1 \<and> salary job3 \<ge> 0 \<and> jobs (snd (create test_db job3)) = jobs test_db @ [job3]"
    using c a by blast
  moreover have "fst (create test_db bad_job) = Inl (BadRequestError (InvalidEquity (equity bad_job)))"
    using c' b by blast
  moreover have "fst (create test_db underpaid) = Inl (BadRequestError (InvalidSalary (salary underpaid)))"
    using c'' u by blast
  moreover have "\<forall>r\<in>set (jobs (snd (create test_db job3))). equity r \<le> 1 \<and> salary r \<ge> 0"
    using c i by blast
  ultimately show ?thesis
    using a b u i by (simp add: test_db_def bad_job_def underpaid_def list_all_iff)
qed

text \<open>A job with equity below 0 is accepted and stored.\<close>

theorem C6_negative_equity_counterexample:
  "fst (create test_db underwater) =
     Inr \<lparr>title = ''underwater'', salary = 1, equity = Float (- 1 / 2), companyHandle = ''c1''\<rparr>
   \<and> underwater \<in> set (jobs (snd (create test_db underwater)))
   \<and> equity underwater < 0"
  by (simp add: create_unfold Let_def test_defs underwater_def string_defs executed_def returning_def)

text \<open>
  C7. Every comparison of the natural key is between the lower-cased title of a stored
  row and the lower-cased key (SQL's \<^verbatim>\<open>LOWER\<close> and \<^verbatim>\<open>toLowerCase\<close> agree): \<open>get\<close>
  returns the first row that matches so and fails when there is none; \<open>remove\<close>
  deletes exactly the rows that match and succeeds when there is one; \<open>update\<close> with
  non-empty data succeeds exactly when a row matches, assigns its columns in the rows
  that match and leaves every row that does not match as it was; the duplicate check
  of \<open>create\<close> fires exactly when a stored row matches the title of the new job. So two keys with the same lower-cased form get,
  update and remove the same rows (the error names the key as it was written).
\<close>

theorem C7_lowercased_key:
  "LOWER s = toLowerCase s
 \<and> fst (get d k) =
     (case filter (\<lambda>r. LOWER (title r) = toLowerCase k) (jobs d) of
        [] \<Rightarrow> Inl (NotFoundError (NoJob k))
      | r # _ \<Rightarrow> Inr (returning r))
 \<and> fst (remove d k) =
     (if \<exists>r\<in>set (jobs d). LOWER (title r) = toLowerCase k then Inr ()
      else Inl (NotFoundError (NoJob k)))
 \<and> jobs (snd (remove d k)) = filter (\<lambda>r. LOWER (title r) \<noteq> toLowerCase k) (jobs d)
 \<and> (dat \<noteq> [] \<longrightarrow>
      ((\<exists>j. fst (update d k dat) = Inr j) \<longleftrightarrow> (\<exists>r\<in>set (jobs d). LOWER (title r) = toLowerCase k))
    \<and> length (jobs (snd (update d k dat))) = length (jobs d)
    \<and> (\<forall>i < length (jobs d).
          LOWER (title (jobs d ! i)) \<noteq> toLowerCase k \<longrightarrow> jobs (snd (update d k dat)) ! i = jobs d ! i)
    \<and> (\<forall>i < length (jobs d).
          LOWER (title (jobs d ! i)) = toLowerCase k \<longrightarrow>
          jobs (snd (update d k dat)) ! i = assign (update_clauses dat) (update_params dat k) (jobs d ! i)))
 \<and> (equity x \<le> 1 \<and> salary x \<ge> 0 \<longrightarrow>
      (fst (create d x) = Inl (BadRequestError (DuplicateJob (title x)))
       \<longleftrightarrow> (\<exists>r\<in>set (jobs d). LOWER (title r) = toLowerCase (title x))))
 \<and> (toLowerCase k = toLowerCase k' \<longrightarrow>
      map_sum (\<lambda>e. ()) id (fst (get d k)) = map_sum (\<lambda>e. ()) id (fst (get d k'))
    \<and> map_sum (\<lambda>e. ()) id (fst (update d k dat)) = map_sum (\<lambda>e. ()) id (fst (update d k' dat))
    \<and> jobs (snd (update d k dat)) = jobs (snd (update d k' dat))
    \<and> map_sum (\<lambda>e. ()) id (fst (remove d k)) = map_sum (\<lambda>e. ()) id (fst (remove d k'))
    \<and> jobs (snd (remove d k)) = jobs (snd (remove d k')))"
proof (intro conjI impI)
  show "LOWER s = toLowerCase s"
    by (rule LOWER_toLowerCase)
  show "fst (get d k) =
     (case filter (\<lambda>r. LOWER (title r) = toLowerCase k) (jobs d) of
        [] \<Rightarrow> Inl (NotFoundError (NoJob k))
      | r # _ \<Rightarrow> Inr (returning r))"
    by (simp add: get_unfold)
  show "fst (remove d k) =
     (if \<exists>r\<in>set (jobs d). LOWER (title r) = toLowerCase k then Inr ()
      else Inl (NotFoundError (NoJob k)))"
    by (simp add: remove_unfold)
  show "jobs (snd (remove d k)) = filter (\<lambda>r. LOWER (title r) \<noteq> toLowerCase k) (jobs d)"
    by (simp add: remove_unfold executed_def)
next
  assume ne: "dat \<noteq> []"
  have "(\<exists>j. fst (update d k dat) = Inr j)
      \<longleftrightarrow> filter (\<lambda>r. LOWER (title r) = toLowerCase k) (jobs d) \<noteq> []"
    by (simp add: update_unfold [OF ne] split: list.splits)
  then show "(\<exists>j. fst (update d k dat) = Inr j) \<longleftrightarrow> (\<exists>r\<in>set (jobs d). LOWER (title r) = toLowerCase k)"
    by (simp add: filter_empty_conv)
  show "length (jobs (snd (update d k dat))) = length (jobs d)"
    by (simp add: update_unfold [OF ne])
  show "\<forall>i < length (jobs d).
          LOWER (title (jobs d ! i)) \<noteq> toLowerCase k \<longrightarrow> jobs (snd (update d k dat)) ! i = jobs d ! i"
    by (simp add: update_unfold [OF ne])
  show "\<forall>i < length (jobs d).
          LOWER (title (jobs d ! i)) = toLowerCase k \<longrightarrow>
          jobs (snd (update d k dat)) ! i = assign (update_clauses dat) (update_params dat k) (jobs d ! i)"
    by (simp add: update_unfold [OF ne])
next
  assume "equity x \<le> 1 \<and> salary x \<ge> 0"
  then show "fst (create d x) = Inl (BadRequestError (DuplicateJob (title x)))
       \<longleftrightarrow> (\<exists>r\<in>set (jobs d). LOWER (title r) = toLowerCase (title x))"
    by (auto simp: create_unfold Let_def)
next
  assume e: "toLowerCase k = toLowerCase k'"
  show "map_sum (\<lambda>e. ()) id (fst (get d k)) = map_sum (\<lambda>e. ()) id (fst (get d k'))"
    by (simp add: get_unfold e split: list.splits)
  show "map_sum (\<lambda>e. ()) id (fst (remove d k)) = map_sum (\<lambda>e. ()) id (fst (remove d k'))"
    by (simp add: remove_unfold e)
  show "jobs (snd (remove d k)) = jobs (snd (remove d k'))"
    by (simp add: remove_unfold e executed_def)
  have u: "update_params dat k = update_params dat k'"
    by (simp add: update_params_def e)
  show "map_sum (\<lambda>e. ()) id (fst (update d k dat)) = map_sum (\<lambda>e. ()) id (fst (update d k' dat))"
  proof (cases "dat = []")
    case True
    then show ?thesis by (simp add: update_def sqlForPartialUpdate_def)
  next
    case False
    then show ?thesis by (simp add: update_unfold [OF False] e u split: list.splits)
  qed
  show "jobs (snd (update d k dat)) = jobs (snd (update d k' dat))"
  proof (cases "dat = []")
    case True
    then show ?thesis by (simp add: update_def sqlForPartialUpdate_def)
  next
    case False
    then show ?thesis by (simp add: update_unfold [OF False] e u)
  qed
qed

theorem C7_lowercased_key_witness:
  "fst (get test_db ''JOB1'') = Inr (returning job1)
   \<and> fst (remove test_db ''JOB1'') = Inr ()
   \<and> jobs (snd (remove test_db ''JOB1'')) = [job2, engineer]
   \<and> [Salary 7] \<noteq> []
   \<and> (\<exists>j. fst (update test_db ''JOB1'' [Salary 7]) = Inr j)
   \<and> jobs (snd (update test_db ''JOB1'' [Salary 7])) ! 1 = job2
   \<and> jobs (snd (update test_db ''JOB1'' [Salary 7])) ! 0 = job1\<lparr>salary := 7\<rparr>
   \<and> equity job1_again \<le> 1 \<and> salary job1_again \<ge> 0
   \<and> fst (create test_db job1_again) = Inl (BadRequestError (DuplicateJob ''Job1''))
   \<and> toLowerCase ''JOB1'' = toLowerCase ''job1''
   \<and> jobs (snd (remove test_db ''JOB1'')) = jobs (snd (remove test_db ''job1''))"
proof -
  note c = C7_lowercased_key [where d = test_db and k = "''JOB1''" and dat = "[Salary 7]"
      and x = job1_again and k' = "''job1''" and s = "''JOB1''"]
  have f: "filter (\<lambda>r. LOWER (title r) = toLowerCase ''JOB1'') (jobs test_db) = [job1]"
    and g: "filter (\<lambda>r. LOWER (title r) \<noteq> toLowerCase ''JOB1'') (jobs test_db) = [job2, engineer]"
    by (simp_all add: test_defs string_defs)
  have ex: "\<exists>r\<in>set (jobs test_db). LOWER (title r) = toLowerCase ''JOB1''"
    and ex': "\<exists>r\<in>set (jobs test_db). LOWER (title r) = toLowerCase (title job1_again)"
    by (simp_all add: test_defs string_defs job1_again_def)
  have ok: "equity job1_again \<le> 1 \<and> salary job1_again \<ge> 0"
    by (simp add: job1_again_def)
  have e: "toLowerCase ''JOB1'' = toLowerCase ''job1''"
    by (simp add: string_defs)
  have ne: "[Salary 7] \<noteq> []"
    by simp
  have "fst (get test_db ''JOB1'') = Inr (returning job1)"
    using c f by simp
  moreover have "fst (remove test_db ''JOB1'') = Inr ()"
    using c ex by simp
  moreover have "jobs (snd (remove test_db ''JOB1'')) = [job2, engineer]"
    using c g by simp
  moreover have "\<exists>j. fst (update test_db ''JOB1'' [Salary 7]) = Inr j"
    using c ex ne by blast
  moreover have "jobs (snd (update test_db ''JOB1'' [Salary 7])) ! 1 = jobs test_db ! 1"
  proof -
    have "1 < length (jobs test_db)" "LOWER (title (jobs test_db ! 1)) \<noteq> toLowerCase ''JOB1''"
      by (simp_all add: test_defs string_defs)
    with c ne show ?thesis by blast
  qed
  moreover have "jobs (snd (update test_db ''JOB1'' [Salary 7])) ! 0 = job1\<lparr>salary := 7\<rparr>"
  proof -
    have "0 < length (jobs test_db)" "LOWER (title (jobs test_db ! 0)) = toLowerCase ''JOB1''"
      by (simp_all add: test_defs string_defs)
    with c ne have "jobs (snd (update test_db ''JOB1'' [Salary 7])) ! 0
        = assign (update_clauses [Salary 7]) (update_params [Salary 7] ''JOB1'') (jobs test_db ! 0)"
      by blast
    then show ?thesis
      by (simp add: update_clauses_def update_params_def fieldMapper_def jsToSql_job_def param_def
          set_column_def test_db_def)
  qed
  moreover have "fst (create test_db job1_again) = Inl (BadRequestError (DuplicateJob (title job1_again)))"
    using c ok ex' by blast
  moreover have "jobs (snd (remove test_db ''JOB1'')) = jobs (snd (remove test_db ''job1''))"
    using c e by blast
  ultimately show ?thesis
    using ok e ne by (simp add: test_db_def job1_again_def)
qed

text \<open>
  C8. When no stored row has the natural key, \<open>get\<close> fails with the error "no job",
  \<open>update\<close> with any non-empty data fails with it and changes no row, and \<open>remove\<close>
  fails with it and deletes no row. When a row has the key, \<open>remove\<close> returns no value.
\<close>

theorem C8_absent_key_not_found:
  "((\<forall>r\<in>set (jobs d). LOWER (title r) \<noteq> toLowerCase k) \<longrightarrow>
      fst (get d k) = Inl (NotFoundError (NoJob k))
    \<and> (dat \<noteq> [] \<longrightarrow>
         fst (update d k dat) = Inl (NotFoundError (NoJob k))
       \<and> jobs (snd (update d k dat)) = jobs d)
    \<and> fst (remove d k) = Inl (NotFoundError (NoJob k))
    \<and> jobs (snd (remove d k)) = jobs d)
 \<and> ((\<exists>r\<in>set (jobs d). LOWER (title r) = toLowerCase k) \<longrightarrow> fst (remove d k) = Inr ())"
proof (intro conjI impI)
  assume a: "\<forall>r\<in>set (jobs d). LOWER (title r) \<noteq> toLowerCase k"
  then have f: "filter (\<lambda>r. LOWER (title r) = toLowerCase k) (jobs d) = []"
    by (simp add: filter_empty_conv)
  have m: "map (\<lambda>r. if LOWER (title r) = toLowerCase k then g r else r) (jobs d) = jobs d" for g
    using a by (simp add: map_idI)
  show "fst (get d k) = Inl (NotFoundError (NoJob k))"
    by (simp add: get_unfold f)
  show "fst (remove d k) = Inl (NotFoundError (NoJob k))"
    using a by (simp add: remove_unfold)
  show "jobs (snd (remove d k)) = jobs d"
    using a by (simp add: remove_unfold executed_def)
  assume "dat \<noteq> []"
  then show "fst (update d k dat) = Inl (NotFoundError (NoJob k))"
    and "jobs (snd (update d k dat)) = jobs d"
    by (simp_all add: update_unfold f m)
next
  assume "\<exists>r\<in>set (jobs d). LOWER (title r) = toLowerCase k"
  then show "fst (remove d k) = Inr ()"
    by (simp add: remove_unfold)
qed

theorem C8_absent_key_not_found_witness:
  "toLowerCase ''nope'' \<notin> set (map (\<lambda>r. LOWER (title r)) (jobs test_db))
   \<and> fst (get test_db ''nope'') = Inl (NotFoundError (NoJob ''nope''))
   \<and> [Salary 175000] \<noteq> []
   \<and> fst (update test_db ''nope'' [Salary 175000]) = Inl (NotFoundError (NoJob ''nope''))
   \<and> jobs (snd (update test_db ''nope'' [Salary 175000])) = jobs test_db
   \<and> fst (remove test_db ''nope'') = Inl (NotFoundError (NoJob ''nope''))
   \<and> toLowerCase ''job1'' \<in> set (map (\<lambda>r. LOWER (title r)) (jobs test_db))
   \<and> fst (remove test_db ''job1'') = Inr ()"
proof -
  have a: "\<forall>r\<in>set (jobs test_db). LOWER (title r) \<noteq> toLowerCase ''nope''"
    by (simp add: test_defs string_defs)
  have p: "\<exists>r\<in>set (jobs test_db). LOWER (title r) = toLowerCase ''job1''"
    by (simp add: test_defs string_defs)
  have ne: "[Salary 175000] \<noteq> []"
    by simp
  note absent = C8_absent_key_not_found [of test_db "''nope''" "[Salary 175000]"]
    and present = C8_absent_key_not_found [of test_db "''job1''" "[]"]
  have "fst (get test_db ''nope'') = Inl (NotFoundError (NoJob ''nope''))"
    "fst (update test_db ''nope'' [Salary 175000]) = Inl (NotFoundError (NoJob ''nope''))"
    "jobs (snd (update test_db ''nope'' [Salary 175000])) = jobs test_db"
    "fst (remove test_db ''nope'') = Inl (NotFoundError (NoJob ''nope''))"
    using absent a ne by blast+
  moreover have "fst (remove test_db ''job1'') = Inr ()"
    using present p by blast
  moreover have "toLowerCase ''nope'' \<notin> set (map (\<lambda>r. LOWER (title r)) (jobs test_db))"
    using a by auto
  moreover have "toLowerCase ''job1'' \<in> set (map (\<lambda>r. LOWER (title r)) (jobs test_db))"
    using p by force
  ultimately show ?thesis
    by simp
qed

text \<open>
  C9. \<open>create\<close> always executes the duplicate lookup first, and the \<^verbatim>\<open>INSERT\<close> only
  when it throws nothing. It throws exactly when the equity is above 1, the salary is
  negative or a stored row has the title; the table is then unchanged. The error is the
  one of the equity whenever the equity is above 1, else the one of the salary whenever
  the salary is negative, else the one of the duplicate.
\<close>

theorem C9_create_errors:
  "statements (snd (create d x)) =
     statements d @ SELECT_title (toLowerCase (title x))
       # (case fst (create d x) of Inl e \<Rightarrow> [] | Inr j \<Rightarrow> [INSERT_INTO_jobs x])
 \<and> ((\<exists>e. fst (create d x) = Inl e) \<longleftrightarrow>
      equity x > 1 \<or> salary x < 0 \<or> (\<exists>r\<in>set (jobs d). LOWER (title r) = toLowerCase (title x)))
 \<and> ((\<exists>e. fst (create d x) = Inl e) \<longrightarrow> jobs (snd (create d x)) = jobs d)
 \<and> (equity x > 1 \<longrightarrow> fst (create d x) = Inl (BadRequestError (InvalidEquity (equity x))))
 \<and> (equity x \<le> 1 \<and> salary x < 0 \<longrightarrow>
      fst (create d x) = Inl (BadRequestError (InvalidSalary (salary x))))
 \<and> (equity x \<le> 1 \<and> salary x \<ge> 0 \<and> (\<exists>r\<in>set (jobs d). LOWER (title r) = toLowerCase (title x)) \<longrightarrow>
      fst (create d x) = Inl (BadRequestError (DuplicateJob (title x))))"
  by (auto simp: create_unfold Let_def executed_def)

theorem C9_create_errors_witness:
  "equity bad_job > 1 \<and> salary bad_job < 0
   \<and> (\<exists>r. r \<in> set (jobs test_db) \<and> LOWER (title r) = toLowerCase (title bad_job))
   \<and> fst (create test_db bad_job) = Inl (BadRequestError (InvalidEquity (11 / 10)))
   \<and> jobs (snd (create test_db bad_job)) = jobs test_db
   \<and> statements (snd (create test_db bad_job)) = [SELECT_title ''job1'']
   \<and> equity underpaid \<le> 1 \<and> salary underpaid < 0
   \<and> (\<exists>r. r \<in> set (jobs test_db) \<and> LOWER (title r) = toLowerCase (title underpaid))
   \<and> fst (create test_db underpaid) = Inl (BadRequestError (InvalidSalary (- 1)))
   \<and> equity job1_again \<le> 1 \<and> salary job1_again \<ge> 0
   \<and> (\<exists>r. r \<in> set (jobs test_db) \<and> LOWER (title r) = toLowerCase (title job1_again))
   \<and> fst (create test_db job1_again) = Inl (BadRequestError (DuplicateJob ''Job1''))"
proof -
  have v: "equity bad_job > 1" "salary bad_job < 0"
    by (simp_all add: bad_job_def)
  have k: "toLowerCase (title bad_job) = ''job1''"
    by (simp add: bad_job_def lower_simps)
  have dup: "\<exists>r\<in>set (jobs test_db). LOWER (title r) = toLowerCase (title bad_job)"
    "\<exists>r\<in>set (jobs test_db). LOWER (title r) = toLowerCase (title underpaid)"
    "\<exists>r\<in>set (jobs test_db). LOWER (title r) = toLowerCase (title job1_again)"
    by (simp_all add: test_defs string_defs bad_job_def underpaid_def job1_again_def)
  have u: "equity underpaid \<le> 1 \<and> salary underpaid < 0"
    by (simp add: underpaid_def)
  have a: "equity job1_again \<le> 1 \<and> salary job1_again \<ge> 0"
    by (simp add: job1_again_def)
  note c = C9_create_errors [of test_db bad_job] and c' = C9_create_errors [of test_db underpaid]
    and c'' = C9_create_errors [of test_db job1_again]
  have e: "fst (create test_db bad_job) = Inl (BadRequestError (InvalidEquity (11 / 10)))"
    using c v by (simp add: bad_job_def)
  then have "jobs (snd (create test_db bad_job)) = jobs test_db"
    using c by blast
  moreover have "statements (snd (create test_db bad_job)) = [SELECT_title ''job1'']"
    using c e k by (simp add: test_db_def)
  moreover have "fst (create test_db underpaid) = Inl (BadRequestError (InvalidSalary (salary underpaid)))"
    using c' u by blast
  moreover have "fst (create test_db job1_again) = Inl (BadRequestError (DuplicateJob (title job1_again)))"
    using c'' a dup(3) by blast
  ultimately show ?thesis
    using v dup u a e by (auto simp: underpaid_def job1_again_def)
qed

end
